theory Spec2Isabelle
  imports Complex_Main "HOL-Library.Char_ord" "HOL-Library.List_Lexorder"
    "HOL-Library.Product_Lexorder" "HOL-Library.Multiset"
begin

section \<open>Data frames\<close>

text \<open>
  The dashboard (\<open>uber_dashboard.py\<close>) works on pandas data frames. A frame is modelled
  as its column labels and its rows; a row holds one cell per label, by position. A
  \<open>Series\<close> taken out of a frame (\<open>df['fare']\<close>) is the list of that column's cells, in
  row order.

  A cell is what pandas holds after \<open>read_csv\<close>: a missing value (\<open>NaN\<close>, \<open>NaT\<close>,
  \<open>None\<close>; all of them are null for \<open>isna\<close>, \<open>dropna\<close>, \<open>fillna\<close>), a string, a
  number, or a timestamp once \<open>to_datetime\<close> has run. Numbers are exact reals:
  the rounding of 64-bit floats is outside this model. A timestamp is its calendar day
  (year, month, day) and the nanoseconds since midnight, so that \<open>.dt.date\<close> is the first
  component and the order of days is the lexicographic one.

  The labels of a frame are taken to be pairwise different, as \<open>read_csv\<close> delivers
  them: a column is found at the first position that carries its label.
\<close>

type_synonym date = "int \<times> nat \<times> nat"

type_synonym timestamp = "date \<times> nat"

datatype cell = Null | Str string | Num real | Ts timestamp

datatype error =
    FileError
  | KeyError string
  | ValueError
  | AttributeError
  | TypeError

record frame =
  columns :: "string list"
  rows :: "cell list list"

text \<open>Exceptions are values: \<open>Inl\<close> carries the exception raised, \<open>Inr\<close> the result.\<close>

definition then_do :: "error + 'a \<Rightarrow> ('a \<Rightarrow> error + 'b) \<Rightarrow> error + 'b" where
  "then_do m f = (case m of Inl e \<Rightarrow> Inl e | Inr x \<Rightarrow> f x)"

fun index_of :: "'a \<Rightarrow> 'a list \<Rightarrow> nat option" where
  "index_of x [] = None"
| "index_of x (y # ys) =
     (if x = y then Some 0 else map_option Suc (index_of x ys))"

text \<open>A read past the end of a short row gives the missing value, as \<open>read_csv\<close> pads it.\<close>

definition cell_at :: "nat \<Rightarrow> cell list \<Rightarrow> cell" where
  "cell_at i r = (if i < length r then r ! i else Null)"

text \<open>\<open>df[c]\<close>: the column as a series; \<open>KeyError\<close> when the label is absent.\<close>

definition getitem :: "frame \<Rightarrow> string \<Rightarrow> error + cell list" where
  "getitem df c =
     (case index_of c (columns df) of
        None \<Rightarrow> Inl (KeyError c)
      | Some i \<Rightarrow> Inr (map (cell_at i) (rows df)))"

text \<open>\<open>df[c] = s\<close>: the column is replaced, or appended when the label is new.\<close>

definition setitem :: "frame \<Rightarrow> string \<Rightarrow> cell list \<Rightarrow> frame" where
  "setitem df c s =
     (case index_of c (columns df) of
        None \<Rightarrow> df\<lparr>columns := columns df @ [c],
                   rows := map (\<lambda>(r, v). r @ [v]) (zip (rows df) s)\<rparr>
      | Some i \<Rightarrow> df\<lparr>rows := map (\<lambda>(r, v). r[i := v]) (zip (rows df) s)\<rparr>)"

text \<open>\<open>df[mask]\<close>: the rows whose mask entry is true, in order.\<close>

definition select_rows :: "frame \<Rightarrow> bool list \<Rightarrow> frame" where
  "select_rows df bs = df\<lparr>rows := map fst (filter snd (zip (rows df) bs))\<rparr>"

text \<open>\<open>df.empty\<close>: an axis of length 0. \<open>pd.DataFrame()\<close> is the frame with neither.\<close>

definition df_empty :: "frame \<Rightarrow> bool" where
  "df_empty df = (columns df = [] \<or> rows df = [])"

definition DataFrame :: frame where
  "DataFrame = \<lparr>columns = [], rows = []\<rparr>"

section \<open>Scalar conversions of pandas\<close>

text \<open>
  How pandas reads one value as a timestamp or as a number, and how it prints one, is
  the library's and not this program's: the three are parameters. \<open>parse_datetime s c\<close>
  is the timestamp \<open>to_datetime\<close> reads from the non-null cell \<open>c\<close> of the series \<open>s\<close>
  (pandas guesses the format from the series), \<open>None\<close> when it cannot; \<open>parse_numeric c\<close>
  is the number \<open>to_numeric\<close> reads from a cell that is neither null nor a number;
  \<open>format_str c\<close> is \<open>str\<close> of a cell that is neither null nor a string.
\<close>

record conv =
  parse_datetime :: "cell list \<Rightarrow> cell \<Rightarrow> timestamp option"
  parse_numeric :: "cell \<Rightarrow> real option"
  format_str :: "cell \<Rightarrow> string"

text \<open>
  \<open>pd.to_datetime(s)\<close> with the default \<open>errors='raise'\<close>: a null stays null, a value that
  cannot be read raises \<open>ValueError\<close> for the whole series.
\<close>

definition to_datetime_cell :: "conv \<Rightarrow> cell list \<Rightarrow> cell \<Rightarrow> cell option" where
  "to_datetime_cell cv s c =
     (case c of
        Null \<Rightarrow> Some Null
      | Ts t \<Rightarrow> Some (Ts t)
      | _ \<Rightarrow> map_option Ts (parse_datetime cv s c))"

definition to_datetime :: "conv \<Rightarrow> cell list \<Rightarrow> error + cell list" where
  "to_datetime cv s =
     (if list_all (\<lambda>c. to_datetime_cell cv s c \<noteq> None) s
      then Inr (map (\<lambda>c. the (to_datetime_cell cv s c)) s)
      else Inl ValueError)"

text \<open>\<open>pd.to_numeric(s, errors='coerce')\<close>: a value that cannot be read becomes null.\<close>

definition to_numeric_cell :: "conv \<Rightarrow> cell \<Rightarrow> cell" where
  "to_numeric_cell cv c =
     (case c of
        Null \<Rightarrow> Null
      | Num x \<Rightarrow> Num x
      | _ \<Rightarrow> (case parse_numeric cv c of None \<Rightarrow> Null | Some x \<Rightarrow> Num x))"

definition to_numeric :: "conv \<Rightarrow> cell list \<Rightarrow> cell list" where
  "to_numeric cv s = map (to_numeric_cell cv) s"

text \<open>\<open>s.astype(str)\<close>: a string is itself, \<open>NaN\<close> prints as \<open>nan\<close>.\<close>

definition astype_str :: "conv \<Rightarrow> cell \<Rightarrow> string" where
  "astype_str cv c =
     (case c of Str s \<Rightarrow> s | Null \<Rightarrow> ''nan'' | _ \<Rightarrow> format_str cv c)"

text \<open>\<open>s.str.replace('"', '')\<close>: every double quote is removed.\<close>

definition str_replace_quote :: "string \<Rightarrow> string" where
  "str_replace_quote s = filter (\<lambda>ch. ch \<noteq> CHR 0x22) s"

text \<open>\<open>s.fillna(v)\<close>\<close>

definition fillna :: "string \<Rightarrow> cell list \<Rightarrow> cell list" where
  "fillna v s = map (\<lambda>c. if c = Null then Str v else c) s"

section \<open>load_data\<close>

text \<open>
  \<open>str.strip\<close> removes leading and trailing whitespace. The white space of Python among
  one-byte characters: tab to carriage return, the four separators 28 to 31, space,
  next line (133) and no-break space (160).
\<close>

definition isspace :: "char \<Rightarrow> bool" where
  "isspace ch = (of_char ch \<in> set [9, 10, 11, 12, 13, 28, 29, 30, 31, 32, 133, 160 :: nat])"

definition strip :: "string \<Rightarrow> string" where
  "strip s = rev (dropWhile isspace (rev (dropWhile isspace s)))"

definition column_mapping :: "(string \<times> string) list" where
  "column_mapping =
     [(''Booking ID'', ''trip_id''),
      (''Date'', ''date''),
      (''Pickup Location'', ''pickup''),
      (''Drop Location'', ''dropoff''),
      (''Booking Value'', ''fare''),
      (''Ride Distance'', ''distance_miles''),
      (''Vehicle Type'', ''vehicle_type''),
      (''Payment Method'', ''payment_type''),
      (''Avg CTAT'', ''duration_min'')]"

text \<open>\<open>df.rename(columns=m)\<close>: a label with an entry is replaced, any other label stays.\<close>

definition rename_label :: "(string \<times> string) list \<Rightarrow> string \<Rightarrow> string" where
  "rename_label m c = (case map_of m c of None \<Rightarrow> c | Some c' \<Rightarrow> c')"

definition rename :: "frame \<Rightarrow> (string \<times> string) list \<Rightarrow> frame" where
  "rename df m = df\<lparr>columns := map (rename_label m) (columns df)\<rparr>"

text \<open>\<open>df[c] = f(df[c])\<close> for a conversion that cannot raise.\<close>

definition assign :: "frame \<Rightarrow> string \<Rightarrow> (cell list \<Rightarrow> cell list) \<Rightarrow> error + frame" where
  "assign df c f = then_do (getitem df c) (\<lambda>s. Inr (setitem df c (f s)))"

text \<open>
  The body of the \<open>try\<close> block of \<open>load_data\<close>, statement by statement. Its argument is
  what \<open>pd.read_csv\<close> returned: the frame, or the exception it raised.
\<close>

definition load_data_try :: "conv \<Rightarrow> error + frame \<Rightarrow> error + frame" where
  "load_data_try cv csv =
     then_do csv (\<lambda>df.
     let df = df\<lparr>columns := map strip (columns df)\<rparr>;
         df = rename df column_mapping in
     then_do (getitem df ''date'') (\<lambda>s.
     then_do (to_datetime cv s) (\<lambda>s.
     let df = setitem df ''date'' s in
     then_do (getitem df ''Booking Status'') (\<lambda>s.
     let df = select_rows df (map (\<lambda>c. c = Str ''Completed'') s) in
     then_do (assign df ''fare'' (to_numeric cv)) (\<lambda>df.
     then_do (assign df ''distance_miles'' (to_numeric cv)) (\<lambda>df.
     then_do (assign df ''duration_min'' (to_numeric cv)) (\<lambda>df.
     then_do (getitem df ''fare'') (\<lambda>s.
     let df = select_rows df (map (\<lambda>c. c \<noteq> Null) s) in
     then_do (assign df ''trip_id''
                (map (\<lambda>c. Str (str_replace_quote (astype_str cv c))))) (\<lambda>df.
     then_do (assign df ''pickup'' (fillna ''Unknown'')) (\<lambda>df.
     then_do (assign df ''dropoff'' (fillna ''Unknown'')) (\<lambda>df.
     then_do (assign df ''payment_type'' (fillna ''Unknown'')) (\<lambda>df.
     then_do (assign df ''vehicle_type'' (fillna ''Unknown'')) (\<lambda>df.
     Inr df)))))))))))))"

text \<open>
  \<open>load_data\<close>: the \<open>except\<close> branch reports the exception with \<open>st.error\<close> and returns the
  empty \<open>pd.DataFrame()\<close>. The second component is the exception reported, if any.
\<close>

definition load_data :: "conv \<Rightarrow> error + frame \<Rightarrow> frame \<times> error option" where
  "load_data cv csv =
     (case load_data_try cv csv of
        Inl e \<Rightarrow> (DataFrame, Some e)
      | Inr df \<Rightarrow> (df, None))"

section \<open>apply_filters\<close>

text \<open>
  \<open>s.dt.date\<close>: the calendar day of each timestamp, \<open>NaT\<close> for a null. The accessor
  exists on a datetime series only; on any other it raises \<open>AttributeError\<close>.
\<close>

definition dt_date :: "cell list \<Rightarrow> error + date option list" where
  "dt_date s =
     (if list_all (\<lambda>c. case c of Null \<Rightarrow> True | Ts t \<Rightarrow> True | _ \<Rightarrow> False) s
      then Inr (map (\<lambda>c. case c of Ts t \<Rightarrow> Some (fst t) | _ \<Rightarrow> None) s)
      else Inl AttributeError)"

text \<open>A comparison of a series with a day is false at a null entry.\<close>

definition ge_date :: "date option list \<Rightarrow> date \<Rightarrow> bool list" where
  "ge_date s d = map (\<lambda>x. case x of None \<Rightarrow> False | Some y \<Rightarrow> d \<le> y) s"

definition le_date :: "date option list \<Rightarrow> date \<Rightarrow> bool list" where
  "le_date s d = map (\<lambda>x. case x of None \<Rightarrow> False | Some y \<Rightarrow> y \<le> d) s"

definition mask_and :: "bool list \<Rightarrow> bool list \<Rightarrow> bool list" where
  "mask_and a b = map (\<lambda>(x, y). x \<and> y) (zip a b)"

text \<open>\<open>s.isin(values)\<close> for a list of strings: true where the cell is one of them.\<close>

definition isin :: "cell list \<Rightarrow> string list \<Rightarrow> bool list" where
  "isin s vs = map (\<lambda>c. case c of Str v \<Rightarrow> v \<in> set vs | _ \<Rightarrow> False) s"

text \<open>
  The date block of \<open>apply_filters\<close>. \<open>date_range\<close> is the tuple of \<open>st.date_input\<close>: the
  empty tuple is falsy and skips the block; \<open>start_date, end_date = date_range\<close> raises
  \<open>ValueError\<close> unless the tuple has two entries.
\<close>

definition filter_date_range :: "frame \<Rightarrow> date list \<Rightarrow> error + frame" where
  "filter_date_range filtered_df date_range =
     (if date_range \<noteq> [] then
        (case date_range of
           [start_date, end_date] \<Rightarrow>
             then_do (getitem filtered_df ''date'') (\<lambda>s1.
             then_do (dt_date s1) (\<lambda>d1.
             then_do (getitem filtered_df ''date'') (\<lambda>s2.
             then_do (dt_date s2) (\<lambda>d2.
             Inr (select_rows filtered_df
                    (mask_and (ge_date d1 start_date) (le_date d2 end_date)))))))
         | _ \<Rightarrow> Inl ValueError)
      else Inr filtered_df)"

text \<open>
  The three selection blocks have one shape:
  \<open>if f and 'All' not in f: filtered_df = filtered_df[filtered_df[c].isin(f)]\<close>.
\<close>

definition filter_isin :: "frame \<Rightarrow> string \<Rightarrow> string list \<Rightarrow> error + frame" where
  "filter_isin filtered_df c f =
     (if f \<noteq> [] \<and> ''All'' \<notin> set f then
        then_do (getitem filtered_df c) (\<lambda>s.
        Inr (select_rows filtered_df (isin s f)))
      else Inr filtered_df)"

definition apply_filters ::
  "frame \<Rightarrow> date list \<Rightarrow> string list \<Rightarrow> string list \<Rightarrow> string list \<Rightarrow> error + frame" where
  "apply_filters df date_range pickup_filter dropoff_filter vehicle_filter =
     (let filtered_df = df in
      then_do (filter_date_range filtered_df date_range) (\<lambda>filtered_df.
      then_do (filter_isin filtered_df ''pickup'' pickup_filter) (\<lambda>filtered_df.
      then_do (filter_isin filtered_df ''dropoff'' dropoff_filter) (\<lambda>filtered_df.
      then_do (filter_isin filtered_df ''vehicle_type'' vehicle_filter) (\<lambda>filtered_df.
      Inr filtered_df)))))"

section \<open>Grouped sums and the charts\<close>

text \<open>
  The values of a numeric series, \<open>None\<close> for \<open>NaN\<close>; \<open>TypeError\<close> stands for what
  \<open>sum\<close> does on a series that holds anything else. \<open>nansum\<close> is \<open>Series.sum\<close>, which
  skips \<open>NaN\<close>.
\<close>

definition numeric_values :: "cell list \<Rightarrow> error + real option list" where
  "numeric_values s =
     (if list_all (\<lambda>c. case c of Null \<Rightarrow> True | Num x \<Rightarrow> True | _ \<Rightarrow> False) s
      then Inr (map (\<lambda>c. case c of Num x \<Rightarrow> Some x | _ \<Rightarrow> None) s)
      else Inl TypeError)"

fun nansum :: "real option list \<Rightarrow> real" where
  "nansum [] = 0"
| "nansum (None # vs) = nansum vs"
| "nansum (Some x # vs) = x + nansum vs"









text \<open>\<open>total_booking_value\<close> of \<open>create_kpi_metrics\<close>: 0 on an empty frame, else
  \<open>df['fare'].sum()\<close>.\<close>

definition total_booking_value :: "frame \<Rightarrow> error + real" where
  "total_booking_value df =
     (if df_empty df then Inr 0
      else
        then_do (getitem df ''fare'') (\<lambda>fs.
        then_do (numeric_values fs) (\<lambda>vs.
        Inr (nansum vs))))"



section \<open>Sample data\<close>

text \<open>
  A conversion that reads what the sample frames hold: a day written \<open>YYYY-MM-DD\<close> and a
  number written in decimal digits. Any other text is rejected, as pandas rejects the
  texts \<open>not a date\<close> and \<open>none\<close> used below; no sample needs \<open>format_str\<close>.
\<close>

definition digit_of :: "char \<Rightarrow> nat option" where
  "digit_of ch =
     (let n = (of_char ch :: nat) in if 48 \<le> n \<and> n \<le> 57 then Some (n - 48) else None)"

fun digits_value :: "nat \<Rightarrow> string \<Rightarrow> nat option" where
  "digits_value acc [] = Some acc"
| "digits_value acc (ch # cs) =
     (case digit_of ch of None \<Rightarrow> None | Some d \<Rightarrow> digits_value (10 * acc + d) cs)"

definition parse_nat :: "string \<Rightarrow> nat option" where
  "parse_nat s = (if s = [] then None else digits_value 0 s)"

definition days_in_month :: "nat \<Rightarrow> nat \<Rightarrow> nat" where
  "days_in_month y m =
     (if m = 2 then (if y mod 4 = 0 \<and> (y mod 100 \<noteq> 0 \<or> y mod 400 = 0) then 29 else 28)
      else if m \<in> set [4, 6, 9, 11] then 30 else 31)"

definition parse_iso_date :: "string \<Rightarrow> date option" where
  "parse_iso_date s =
     (if length s = 10 \<and> s ! 4 = CHR ''-'' \<and> s ! 7 = CHR ''-'' then
        (case (parse_nat (take 4 s), parse_nat (take 2 (drop 5 s)), parse_nat (drop 8 s)) of
           (Some y, Some m, Some d) \<Rightarrow>
             if 1 \<le> m \<and> m \<le> 12 \<and> 1 \<le> d \<and> d \<le> days_in_month y m
             then Some (int y, m, d) else None
         | _ \<Rightarrow> None)
      else None)"

definition sample_conv :: conv where
  "sample_conv =
     \<lparr>parse_datetime =
        (\<lambda>s c. case c of Str x \<Rightarrow> map_option (\<lambda>d. (d, 0)) (parse_iso_date x) | _ \<Rightarrow> None),
      parse_numeric =
        (\<lambda>c. case c of Str x \<Rightarrow> map_option real (parse_nat x) | _ \<Rightarrow> None),
      format_str = (\<lambda>c. [])\<rparr>"

text \<open>
  A file as \<open>read_csv\<close> delivers it: a header with stray blanks, the booking id in double
  quotes, an empty field as the missing value. The fare column holds a text that is no
  number, so the column arrives as strings.
\<close>

definition sample_header :: "string list" where
  "sample_header =
     [''Date'', ''Booking ID'', '' Booking Status '', ''Customer ID'', ''Vehicle Type'',
      ''Pickup Location'', ''Drop Location'', ''Avg CTAT'', ''Booking Value'',
      ''Ride Distance'', ''Payment Method'']"

definition sample_rows :: "cell list list" where
  "sample_rows =
     [[Str ''2024-01-01'', Str [CHR 0x22, CHR ''T'', CHR ''1'', CHR 0x22], Str ''Completed'',
       Str ''C1'', Str ''Auto'', Str ''A'', Str ''X'', Num 30, Str ''100'', Num 5, Str ''UPI''],
      [Str ''2024-01-01'', Str [CHR 0x22, CHR ''T'', CHR ''2'', CHR 0x22], Str ''Completed'',
       Str ''C2'', Str ''Bike'', Str ''B'', Str ''Y'', Null, Str ''50'', Num 3, Null],
      [Str ''2024-01-02'', Str [CHR 0x22, CHR ''T'', CHR ''3'', CHR 0x22], Str ''Completed'',
       Str ''C3'', Str ''Auto'', Str ''A'', Null, Num 20, Str ''25'', Null, Str ''Cash''],
      [Str ''2024-01-02'', Str [CHR 0x22, CHR ''T'', CHR ''4'', CHR 0x22], Str ''Cancelled'',
       Str ''C4'', Str ''Auto'', Str ''A'', Str ''X'', Null, Str ''999'', Null, Null],
      [Str ''2024-01-03'', Str [CHR 0x22, CHR ''T'', CHR ''5'', CHR 0x22], Str ''Completed'',
       Str ''C5'', Str ''Bike'', Str ''B'', Str ''Y'', Num 10, Str ''none'', Num 2, Str ''UPI''],
      [Null, Str [CHR 0x22, CHR ''T'', CHR ''6'', CHR 0x22], Str ''Completed'',
       Str ''C6'', Null, Str ''C'', Str ''X'', Num 15, Str ''40'', Num 4, Str ''Cash'']]"

definition sample_csv :: frame where
  "sample_csv = \<lparr>columns = sample_header, rows = sample_rows\<rparr>"

text \<open>The same file with one more booking, whose date cannot be read.\<close>

definition bad_date_csv :: frame where
  "bad_date_csv =
     \<lparr>columns = sample_header,
      rows = sample_rows @
        [[Str ''not a date'', Str [CHR 0x22, CHR ''T'', CHR ''7'', CHR 0x22], Str ''Completed'',
          Str ''C7'', Str ''Auto'', Str ''A'', Str ''X'', Num 12, Str ''60'', Num 6,
          Str ''UPI'']]\<rparr>"

text \<open>What \<open>load_data\<close> makes of the sample file.\<close>

definition sample_canonical :: frame where
  "sample_canonical =
     \<lparr>columns =
        [''date'', ''trip_id'', ''Booking Status'', ''Customer ID'', ''vehicle_type'',
         ''pickup'', ''dropoff'', ''duration_min'', ''fare'', ''distance_miles'',
         ''payment_type''],
      rows =
        [[Ts ((2024, 1, 1), 0), Str ''T1'', Str ''Completed'', Str ''C1'', Str ''Auto'',
          Str ''A'', Str ''X'', Num 30, Num 100, Num 5, Str ''UPI''],
         [Ts ((2024, 1, 1), 0), Str ''T2'', Str ''Completed'', Str ''C2'', Str ''Bike'',
          Str ''B'', Str ''Y'', Null, Num 50, Num 3, Str ''Unknown''],
         [Ts ((2024, 1, 2), 0), Str ''T3'', Str ''Completed'', Str ''C3'', Str ''Auto'',
          Str ''A'', Str ''Unknown'', Num 20, Num 25, Null, Str ''Cash''],
         [Null, Str ''T6'', Str ''Completed'', Str ''C6'', Str ''Unknown'', Str ''C'',
          Str ''X'', Num 15, Num 40, Num 4, Str ''Cash'']]\<rparr>"



section \<open>Rows of the canonical frame\<close>

text \<open>
  What the column assignments of \<open>load_data\<close> do to one row: \<open>upd i f\<close> rewrites the cell
  at position \<open>i\<close> by \<open>f\<close>. The three cell functions are those of \<open>to_datetime\<close>, of
  \<open>fillna('Unknown')\<close> and of the clean-up of \<open>trip_id\<close>.
\<close>

definition upd :: "nat \<Rightarrow> (cell \<Rightarrow> cell) \<Rightarrow> cell list \<Rightarrow> cell list" where
  "upd i f r = r[i := f (cell_at i r)]"

definition dt_cell :: "conv \<Rightarrow> cell list \<Rightarrow> cell \<Rightarrow> cell" where
  "dt_cell cv s c = the (to_datetime_cell cv s c)"

definition unknown :: "cell \<Rightarrow> cell" where
  "unknown c = (if c = Null then Str ''Unknown'' else c)"

definition trip_cell :: "conv \<Rightarrow> cell \<Rightarrow> cell" where
  "trip_cell cv c = Str (str_replace_quote (astype_str cv c))"

text \<open>The labels of the canonical frame: stripped, then renamed.\<close>

definition canonical_labels :: "frame \<Rightarrow> string list" where
  "canonical_labels df = map (rename_label column_mapping \<circ> strip) (columns df)"

text \<open>A raw row survives the two row filters of \<open>load_data\<close>: completed, fare readable.\<close>

definition kept :: "conv \<Rightarrow> nat \<Rightarrow> nat \<Rightarrow> cell list \<Rightarrow> bool" where
  "kept cv istatus ifare r =
     (cell_at istatus r = Str ''Completed'' \<and> to_numeric_cell cv (cell_at ifare r) \<noteq> Null)"


section \<open>Rows that pass the filters, rows of a group\<close>

text \<open>
  The masks of \<open>apply_filters\<close> and the keys and values of the grouped sums, read on one
  cell: whether a cell is one of the selected strings, the day of a timestamp, whether
  that day lies in the range, whether \<open>.dt\<close> accepts the cell, the number in a cell.
\<close>

definition in_selection :: "string list \<Rightarrow> cell \<Rightarrow> bool" where
  "in_selection f c = (case c of Str v \<Rightarrow> v \<in> set f | _ \<Rightarrow> False)"

definition day_of :: "cell \<Rightarrow> date option" where
  "day_of c = (case c of Ts t \<Rightarrow> Some (fst t) | _ \<Rightarrow> None)"

definition in_range :: "date \<Rightarrow> date \<Rightarrow> cell \<Rightarrow> bool" where
  "in_range lo hi c = (case day_of c of None \<Rightarrow> False | Some d \<Rightarrow> lo \<le> d \<and> d \<le> hi)"

definition datetimelike :: "cell \<Rightarrow> bool" where
  "datetimelike c = (case c of Null \<Rightarrow> True | Ts t \<Rightarrow> True | _ \<Rightarrow> False)"


text \<open>A selection that the blocks of \<open>apply_filters\<close> skip: empty, or holding \<open>All\<close>.\<close>

definition select_all :: "string list \<Rightarrow> bool" where
  "select_all f = (f = [] \<or> ''All'' \<in> set f)"




section \<open>Frames, column by column and row by row\<close>

lemma then_do_Inr: "then_do m f = Inr y \<longleftrightarrow> (\<exists>x. m = Inr x \<and> f x = Inr y)"
  by (cases m) (simp_all add: then_do_def)

lemma index_of_Some: "index_of c cs = Some i \<Longrightarrow> i < length cs \<and> cs ! i = c"
  by (induction cs arbitrary: i) (auto split: if_splits)

lemma zip_map_same: "zip xs (map f xs) = map (\<lambda>x. (x, f x)) xs"
  by (induction xs) auto

lemma setitem_map:
  "index_of c (columns df) = Some i \<Longrightarrow>
   setitem df c (map g (rows df)) = df\<lparr>rows := map (\<lambda>r. r[i := g r]) (rows df)\<rparr>"
  by (simp add: setitem_def zip_map_same)

lemma assign_map:
  "assign df c (map f) =
     (case index_of c (columns df) of None \<Rightarrow> Inl (KeyError c)
      | Some i \<Rightarrow> Inr (df\<lparr>rows := map (upd i f) (rows df)\<rparr>))"
  by (auto simp: assign_def getitem_def then_do_def setitem_map upd_def comp_def split: option.splits)

lemma to_datetime_Inr:
  "to_datetime cv s = Inr s' \<Longrightarrow> s' = map (\<lambda>c. the (to_datetime_cell cv s c)) s \<and> (\<forall>c\<in>set s. to_datetime_cell cv s c \<noteq> None)"
  by (auto simp: to_datetime_def list_all_iff split: if_splits)

lemma then_doE:
  assumes "then_do m f = Inr y"
  obtains x where "m = Inr x" "f x = Inr y"
  using assms by (auto simp: then_do_Inr)

lemma to_numeric_eq: "to_numeric cv = map (to_numeric_cell cv)"
  by (rule ext) (simp add: to_numeric_def)

lemma fillna_eq: "fillna v = map (\<lambda>c. if c = Null then Str v else c)"
  by (rule ext) (simp add: fillna_def)

lemma assign_rows:
  assumes "assign df c (map f) = Inr df'"
  obtains i where "index_of c (columns df) = Some i" "columns df' = columns df"
    "rows df' = map (upd i f) (rows df)"
  using assms by (auto simp: assign_map split: option.splits)

lemma getitem_rows:
  assumes "getitem df c = Inr s"
  obtains i where "index_of c (columns df) = Some i" "s = map (cell_at i) (rows df)"
  using assms by (auto simp: getitem_def split: option.splits)

lemma columns_setitem:
  "index_of c (columns df) = Some i \<Longrightarrow> columns (setitem df c s) = columns df"
  by (simp add: setitem_def)

lemma rows_setitem:
  "index_of c (columns df) = Some i \<Longrightarrow>
   rows (setitem df c (map g (map (cell_at i) (rows df)))) = map (upd i g) (rows df)"
  by (simp add: setitem_map upd_def)

lemma columns_select_rows: "columns (select_rows df bs) = columns df"
  by (simp add: select_rows_def)

lemma rows_select_rows:
  "rows (select_rows df (map P (map (cell_at i) (rows df)))) = filter (\<lambda>r. P (cell_at i r)) (rows df)"
proof -
  have "map fst (filter snd (zip xs (map P (map (cell_at i) xs)))) = filter (\<lambda>r. P (cell_at i r)) xs" for xs
    by (induction xs) auto
  then show ?thesis
    by (simp add: select_rows_def)
qed

lemma load_data_try_char:
  assumes "load_data_try cv (Inr df) = Inr d"
  obtains idate istatus ifare idist idur itrip ipick idrop ipay iveh where
    "index_of ''date'' (columns d) = Some idate"
    "index_of ''Booking Status'' (columns d) = Some istatus"
    "index_of ''fare'' (columns d) = Some ifare"
    "index_of ''distance_miles'' (columns d) = Some idist"
    "index_of ''duration_min'' (columns d) = Some idur"
    "index_of ''trip_id'' (columns d) = Some itrip"
    "index_of ''pickup'' (columns d) = Some ipick"
    "index_of ''dropoff'' (columns d) = Some idrop"
    "index_of ''payment_type'' (columns d) = Some ipay"
    "index_of ''vehicle_type'' (columns d) = Some iveh"
    "\<forall>c\<in>set (map (cell_at idate) (rows df)). to_datetime_cell cv (map (cell_at idate) (rows df)) c \<noteq> None"
    "columns d = map (rename_label column_mapping \<circ> strip) (columns df)"
    "rows d = map (upd iveh unknown \<circ> upd ipay unknown \<circ> upd idrop unknown \<circ> upd ipick unknown \<circ>
                    upd itrip (trip_cell cv))
                 (filter (\<lambda>r. cell_at ifare r \<noteq> Null)
                   (map (upd idur (to_numeric_cell cv) \<circ> upd idist (to_numeric_cell cv) \<circ>
                         upd ifare (to_numeric_cell cv))
                     (filter (\<lambda>r. cell_at istatus r = Str ''Completed'')
                        (map (upd idate (dt_cell cv (map (cell_at idate) (rows df)))) (rows df)))))"
proof -
  define cs where "cs = map (rename_label column_mapping \<circ> strip) (columns df)"
  define df1 where "df1 = rename (df\<lparr>columns := map strip (columns df)\<rparr>) column_mapping"
  have df1: "columns df1 = cs" "rows df1 = rows df"
    by (simp_all add: df1_def cs_def rename_def)
  from assms obtain s1 s2 s3 df4 df5 df6 s7 df8 df9 df10 df11 where
    a1: "getitem df1 ''date'' = Inr s1" and
    a2: "to_datetime cv s1 = Inr s2" and
    a3: "getitem (setitem df1 ''date'' s2) ''Booking Status'' = Inr s3" and
    a4: "assign (select_rows (setitem df1 ''date'' s2) (map (\<lambda>c. c = Str ''Completed'') s3))
           ''fare'' (map (to_numeric_cell cv)) = Inr df4" and
    a5: "assign df4 ''distance_miles'' (map (to_numeric_cell cv)) = Inr df5" and
    a6: "assign df5 ''duration_min'' (map (to_numeric_cell cv)) = Inr df6" and
    a7: "getitem df6 ''fare'' = Inr s7" and
    a8: "assign (select_rows df6 (map (\<lambda>c. c \<noteq> Null) s7)) ''trip_id'' (map (trip_cell cv)) = Inr df8" and
    a9: "assign df8 ''pickup'' (map unknown) = Inr df9" and
    a10: "assign df9 ''dropoff'' (map unknown) = Inr df10" and
    a11: "assign df10 ''payment_type'' (map unknown) = Inr df11" and
    a12: "assign df11 ''vehicle_type'' (map unknown) = Inr d"
    unfolding load_data_try_def Let_def to_numeric_eq fillna_eq
    by (elim then_doE) (auto simp: df1_def trip_cell_def[abs_def] unknown_def[abs_def])
  from a1 obtain idate where i1: "index_of ''date'' cs = Some idate"
    and s1: "s1 = map (cell_at idate) (rows df)"
    by (auto elim: getitem_rows simp: df1)
  from a2 have s2: "s2 = map (dt_cell cv s1) s1"
    and ok: "\<forall>c\<in>set s1. to_datetime_cell cv s1 c \<noteq> None"
    by (auto dest: to_datetime_Inr simp: dt_cell_def)
  define df2 where "df2 = setitem df1 ''date'' s2"
  have df2: "columns df2 = cs" "rows df2 = map (upd idate (dt_cell cv s1)) (rows df)"
    using i1 rows_setitem[of "''date''" df1 idate "dt_cell cv s1"]
    by (simp_all add: df2_def columns_setitem df1 s2 s1)
  from a3 obtain istatus where i3: "index_of ''Booking Status'' cs = Some istatus"
    and s3: "s3 = map (cell_at istatus) (rows df2)"
    by (auto elim: getitem_rows simp: df2 df2_def[symmetric])
  define df3 where "df3 = select_rows df2 (map (\<lambda>c. c = Str ''Completed'') s3)"
  have df3: "columns df3 = cs"
    "rows df3 = filter (\<lambda>r. cell_at istatus r = Str ''Completed'') (rows df2)"
    unfolding df3_def s3 by (simp_all only: columns_select_rows df2(1) rows_select_rows)
  from a4 obtain ifare where i4: "index_of ''fare'' cs = Some ifare" and
    df4: "columns df4 = cs" "rows df4 = map (upd ifare (to_numeric_cell cv)) (rows df3)"
    by (auto elim: assign_rows simp: df3 df3_def[symmetric] df2_def[symmetric])
  from a5 obtain idist where i5: "index_of ''distance_miles'' cs = Some idist" and
    df5: "columns df5 = cs" "rows df5 = map (upd idist (to_numeric_cell cv)) (rows df4)"
    by (auto elim: assign_rows simp: df4)
  from a6 obtain idur where i6: "index_of ''duration_min'' cs = Some idur" and
    df6: "columns df6 = cs" "rows df6 = map (upd idur (to_numeric_cell cv)) (rows df5)"
    by (auto elim: assign_rows simp: df5)
  from a7 obtain j where "index_of ''fare'' cs = Some j" and "s7 = map (cell_at j) (rows df6)"
    by (auto elim: getitem_rows simp: df6)
  with i4 have s7: "s7 = map (cell_at ifare) (rows df6)" by simp
  define df7 where "df7 = select_rows df6 (map (\<lambda>c. c \<noteq> Null) s7)"
  have df7: "columns df7 = cs" "rows df7 = filter (\<lambda>r. cell_at ifare r \<noteq> Null) (rows df6)"
    unfolding df7_def s7 by (simp_all only: columns_select_rows df6(1) rows_select_rows)
  from a8 obtain itrip where i8: "index_of ''trip_id'' cs = Some itrip" and
    df8: "columns df8 = cs" "rows df8 = map (upd itrip (trip_cell cv)) (rows df7)"
    by (auto elim: assign_rows simp: df7 df7_def[symmetric])
  from a9 obtain ipick where i9: "index_of ''pickup'' cs = Some ipick" and
    df9: "columns df9 = cs" "rows df9 = map (upd ipick unknown) (rows df8)"
    by (auto elim: assign_rows simp: df8)
  from a10 obtain idrop where i10: "index_of ''dropoff'' cs = Some idrop" and
    df10: "columns df10 = cs" "rows df10 = map (upd idrop unknown) (rows df9)"
    by (auto elim: assign_rows simp: df9)
  from a11 obtain ipay where i11: "index_of ''payment_type'' cs = Some ipay" and
    df11: "columns df11 = cs" "rows df11 = map (upd ipay unknown) (rows df10)"
    by (auto elim: assign_rows simp: df10)
  from a12 obtain iveh where i12: "index_of ''vehicle_type'' cs = Some iveh" and
    d: "columns d = cs" "rows d = map (upd iveh unknown) (rows df11)"
    by (auto elim: assign_rows simp: df11)
  have "rows d = map (upd iveh unknown \<circ> upd ipay unknown \<circ> upd idrop unknown \<circ> upd ipick unknown \<circ>
                    upd itrip (trip_cell cv))
                 (filter (\<lambda>r. cell_at ifare r \<noteq> Null)
                   (map (upd idur (to_numeric_cell cv) \<circ> upd idist (to_numeric_cell cv) \<circ>
                         upd ifare (to_numeric_cell cv))
                     (filter (\<lambda>r. cell_at istatus r = Str ''Completed'')
                        (map (upd idate (dt_cell cv (map (cell_at idate) (rows df)))) (rows df)))))"
    unfolding d df11 df10 df9 df8 df7 df6 df5 df4 df3 df2 s1 by (simp only: map_map o_assoc)
  then show thesis
    using that[of idate istatus ifare idist idur itrip ipick idrop ipay iveh]
      i1 i3 i4 i5 i6 i8 i9 i10 i11 i12 ok d(1)
    by (simp add: s1 cs_def)
qed


lemma index_of_neq:
  "index_of a cs = Some i \<Longrightarrow> index_of b cs = Some j \<Longrightarrow> a \<noteq> b \<Longrightarrow> i \<noteq> j"
  by (auto dest!: index_of_Some)

lemma length_upd [simp]: "length (upd i f r) = length r"
  by (simp add: upd_def)

lemma cell_at_upd_other [simp]: "i \<noteq> j \<Longrightarrow> cell_at i (upd j f r) = cell_at i r"
  by (simp add: upd_def cell_at_def)

lemma cell_at_upd_same: "f Null = Null \<Longrightarrow> cell_at i (upd i f r) = f (cell_at i r)"
  by (simp add: upd_def cell_at_def)


lemma to_numeric_cell_Null [simp]: "to_numeric_cell cv Null = Null"
  by (simp add: to_numeric_cell_def)

lemma to_numeric_cell_cases: "to_numeric_cell cv c = Null \<or> (\<exists>x. to_numeric_cell cv c = Num x)"
  by (auto simp: to_numeric_cell_def split: cell.splits option.splits)

lemma filter_map_filter_map:
  "filter P2 (map g (filter P1 (map h xs))) =
   map (g \<circ> h) (filter (\<lambda>r. P1 (h r) \<and> P2 (g (h r))) xs)"
  by (induction xs) auto

lemma load_data_try_rows:
  assumes "load_data_try cv (Inr df) = Inr d"
  obtains istatus ifare f where
    "index_of ''Booking Status'' (columns d) = Some istatus"
    "index_of ''fare'' (columns d) = Some ifare"
    "columns d = canonical_labels df"
    "rows d = map f (filter (kept cv istatus ifare) (rows df))"
    "\<And>r. cell_at istatus (f r) = cell_at istatus r"
    "\<And>r. cell_at ifare (f r) = to_numeric_cell cv (cell_at ifare r)"
proof -
  from assms obtain idate istatus ifare idist idur itrip ipick idrop ipay iveh where
    i: "index_of ''date'' (columns d) = Some idate"
    "index_of ''Booking Status'' (columns d) = Some istatus"
    "index_of ''fare'' (columns d) = Some ifare"
    "index_of ''distance_miles'' (columns d) = Some idist"
    "index_of ''duration_min'' (columns d) = Some idur"
    "index_of ''trip_id'' (columns d) = Some itrip"
    "index_of ''pickup'' (columns d) = Some ipick"
    "index_of ''dropoff'' (columns d) = Some idrop"
    "index_of ''payment_type'' (columns d) = Some ipay"
    "index_of ''vehicle_type'' (columns d) = Some iveh"
    and cols: "columns d = map (rename_label column_mapping \<circ> strip) (columns df)"
    and rws: "rows d = map (upd iveh unknown \<circ> upd ipay unknown \<circ> upd idrop unknown \<circ> upd ipick unknown \<circ>
                    upd itrip (trip_cell cv))
                 (filter (\<lambda>r. cell_at ifare r \<noteq> Null)
                   (map (upd idur (to_numeric_cell cv) \<circ> upd idist (to_numeric_cell cv) \<circ>
                         upd ifare (to_numeric_cell cv))
                     (filter (\<lambda>r. cell_at istatus r = Str ''Completed'')
                        (map (upd idate (dt_cell cv (map (cell_at idate) (rows df)))) (rows df)))))"
    by (rule load_data_try_char)
  define pre where "pre = upd idate (dt_cell cv (map (cell_at idate) (rows df)))"
  define mid where "mid = upd idur (to_numeric_cell cv) \<circ> upd idist (to_numeric_cell cv) \<circ>
                         upd ifare (to_numeric_cell cv)"
  define post where "post = upd iveh unknown \<circ> upd ipay unknown \<circ> upd idrop unknown \<circ>
                      upd ipick unknown \<circ> upd itrip (trip_cell cv)"
  have n1: "istatus \<noteq> idate" "istatus \<noteq> ifare" "istatus \<noteq> idist" "istatus \<noteq> idur"
    "istatus \<noteq> itrip" "istatus \<noteq> ipick" "istatus \<noteq> idrop" "istatus \<noteq> ipay" "istatus \<noteq> iveh"
    using i(2) i(1,3-10) by (auto dest: index_of_neq)
  have n2: "ifare \<noteq> idate" "ifare \<noteq> idist" "ifare \<noteq> idur"
    "ifare \<noteq> itrip" "ifare \<noteq> ipick" "ifare \<noteq> idrop" "ifare \<noteq> ipay" "ifare \<noteq> iveh"
    using i(3) i(1,4-10) by (auto dest: index_of_neq)
  have st: "cell_at istatus (pre r) = cell_at istatus r"
    "cell_at istatus (mid r) = cell_at istatus r"
    "cell_at istatus (post r) = cell_at istatus r" for r
    using n1 by (simp_all add: pre_def mid_def post_def)
  have fa: "cell_at ifare (pre r) = cell_at ifare r"
    "cell_at ifare (mid r) = to_numeric_cell cv (cell_at ifare r)"
    "cell_at ifare (post r) = cell_at ifare r" for r
    using n2 by (simp_all add: pre_def mid_def post_def cell_at_upd_same)
  have "rows d = map post (filter (\<lambda>r. cell_at ifare r \<noteq> Null)
                   (map mid (filter (\<lambda>r. cell_at istatus r = Str ''Completed'') (map pre (rows df)))))"
    unfolding rws pre_def mid_def post_def ..
  also have "\<dots> = map (post \<circ> mid \<circ> pre) (filter (kept cv istatus ifare) (rows df))"
    by (simp add: filter_map_filter_map st fa kept_def[abs_def] comp_def)
  finally have "rows d = map (post \<circ> mid \<circ> pre) (filter (kept cv istatus ifare) (rows df))" .
  moreover have "cell_at istatus ((post \<circ> mid \<circ> pre) r) = cell_at istatus r" for r
    by (simp add: st)
  moreover have "cell_at ifare ((post \<circ> mid \<circ> pre) r) = to_numeric_cell cv (cell_at ifare r)" for r
    by (simp add: fa)
  ultimately show thesis
    using that[of istatus ifare "post \<circ> mid \<circ> pre"] i(2,3) cols
    by (simp add: canonical_labels_def)
qed


section \<open>Normalisation: what load_data guarantees\<close>

lemma load_data_None: "load_data cv csv = (d, None) \<longleftrightarrow> load_data_try cv csv = Inr d"
  by (auto simp: load_data_def split: sum.splits)

lemma load_sample: "load_data_try sample_conv (Inr sample_csv) = Inr sample_canonical"
  by code_simp

lemma load_data_sample: "load_data sample_conv (Inr sample_csv) = (sample_canonical, None)"
  by (simp add: load_data_None load_sample)

text \<open>
  C1 (as amended). An unparsable value in the date field is fatal to the whole load,
  not local to its row: \<open>pd.to_datetime\<close> is called without \<open>errors='coerce'\<close>, so it
  raises; the \<open>except\<close> branch reports the error and \<open>load_data\<close> returns the empty
  frame, in which no row is retained.
\<close>

theorem unparsable_date_fails_load:
  assumes "index_of ''date'' (canonical_labels df) = Some i"
    and "r \<in> set (rows df)"
    and "cell_at i r = Str x"
    and "parse_datetime cv (map (cell_at i) (rows df)) (Str x) = None"
  shows "load_data cv (Inr df) = (DataFrame, Some ValueError)"
proof -
  let ?s = "map (cell_at i) (rows df)"
  let ?df1 = "rename (df\<lparr>columns := map strip (columns df)\<rparr>) column_mapping"
  have g: "getitem ?df1 ''date'' = Inr ?s"
    using assms(1) by (simp add: getitem_def rename_def canonical_labels_def)
  have "to_datetime_cell cv ?s (cell_at i r) = None"
    using assms(3,4) by (simp add: to_datetime_cell_def)
  moreover have "cell_at i r \<in> set ?s"
    using assms(2) by simp
  ultimately have "to_datetime cv ?s = Inl ValueError"
    unfolding to_datetime_def by (auto simp: list_all_iff)
  with g have "load_data_try cv (Inr df) = Inl ValueError"
    by (simp add: load_data_try_def then_do_def Let_def)
  then show ?thesis
    by (simp add: load_data_def)
qed

theorem unparsable_date_fails_load_witness:
  "index_of ''date'' (canonical_labels bad_date_csv) = Some 0 \<and>
   last (rows bad_date_csv) \<in> set (rows bad_date_csv) \<and>
   cell_at 0 (last (rows bad_date_csv)) = Str ''not a date'' \<and>
   parse_datetime sample_conv (map (cell_at 0) (rows bad_date_csv)) (Str ''not a date'') = None \<and>
   load_data sample_conv (Inr bad_date_csv) = (DataFrame, Some ValueError)"
proof -
  have 1: "index_of ''date'' (canonical_labels bad_date_csv) = Some 0"
    by code_simp
  have 2: "last (rows bad_date_csv) \<in> set (rows bad_date_csv)"
    by (simp add: bad_date_csv_def sample_rows_def)
  have 3: "cell_at 0 (last (rows bad_date_csv)) = Str ''not a date''"
    by (simp add: bad_date_csv_def sample_rows_def cell_at_def)
  have 4: "parse_datetime sample_conv (map (cell_at 0) (rows bad_date_csv)) (Str ''not a date'') = None"
    by (simp add: sample_conv_def parse_iso_date_def)
  from unparsable_date_fails_load[OF 1 2 3 4] 1 2 3 4 show ?thesis
    by simp
qed

text \<open>
  C1 as stated fails. The sample file loads into four rows; with one more booking whose
  date reads \<open>not a date\<close> the load reports \<open>ValueError\<close> and the frame has no row at all:
  that booking is not retained with a null date, and the other bookings are lost too.
\<close>

theorem bad_date_row_not_retained:
  "parse_datetime sample_conv (map (cell_at 0) (rows bad_date_csv)) (Str ''not a date'') = None \<and>
   load_data sample_conv (Inr bad_date_csv) = (DataFrame, Some ValueError) \<and>
   rows (fst (load_data sample_conv (Inr bad_date_csv))) = [] \<and>
   rows (fst (load_data sample_conv (Inr sample_csv))) = rows sample_canonical"
  by code_simp

text \<open>
  C2 (as amended). \<open>df.rename(columns=column_mapping)\<close> replaces the labels that have an
  entry in the table and leaves every other label in place: the canonical frame has one
  column for each column of the file, under its stripped label, renamed if the table has
  an entry for it. No column is dropped.
\<close>

theorem unmapped_columns_retained:
  assumes "load_data cv (Inr df) = (d, None)"
  shows "columns d = map (rename_label column_mapping \<circ> strip) (columns df) \<and>
         length (columns d) = length (columns df) \<and>
         (\<forall>c \<in> set (columns df). map_of column_mapping (strip c) = None \<longrightarrow>
            strip c \<in> set (columns d))"
proof -
  from assms have "load_data_try cv (Inr df) = Inr d"
    by (simp add: load_data_None)
  then have c: "columns d = map (rename_label column_mapping \<circ> strip) (columns df)"
    by (elim load_data_try_rows) (simp add: canonical_labels_def)
  have "strip c \<in> set (columns d)"
    if "c \<in> set (columns df)" "map_of column_mapping (strip c) = None" for c
  proof -
    from that(2) have "(rename_label column_mapping \<circ> strip) c = strip c"
      by (simp add: rename_label_def)
    with that(1) show ?thesis
      unfolding c by (metis imageI list.set_map)
  qed
  with c show ?thesis by simp
qed

theorem unmapped_columns_retained_witness:
  "load_data sample_conv (Inr sample_csv) = (sample_canonical, None) \<and>
   columns sample_canonical =
     map (rename_label column_mapping \<circ> strip) (columns sample_csv) \<and>
   '' Booking Status '' \<in> set (columns sample_csv) \<and>
   map_of column_mapping (strip '' Booking Status '') = None \<and>
   strip '' Booking Status '' \<in> set (columns sample_canonical)"
proof -
  have 1: "'' Booking Status '' \<in> set (columns sample_csv)"
    by (simp add: sample_csv_def sample_header_def)
  have 2: "map_of column_mapping (strip '' Booking Status '') = None"
    by code_simp
  from unmapped_columns_retained[OF load_data_sample] 1 2 load_data_sample
  show ?thesis by blast
qed

text \<open>
  C2 as stated fails: the sample file has the fields \<open>Booking Status\<close> and \<open>Customer ID\<close>,
  which the rename table does not mention, and both are columns of the canonical frame.
  \<open>load_data\<close> itself reads the column \<open>Booking Status\<close> after the renaming.
\<close>

theorem unmapped_field_in_canonical_schema:
  "map_of column_mapping ''Customer ID'' = None \<and>
   map_of column_mapping ''Booking Status'' = None \<and>
   ''Customer ID'' \<in> set (columns sample_csv) \<and>
   ''Customer ID'' \<in> set (columns (fst (load_data sample_conv (Inr sample_csv)))) \<and>
   ''Booking Status'' \<in> set (columns (fst (load_data sample_conv (Inr sample_csv))))"
  by code_simp

text \<open>
  C3. Every record of the canonical dataset has the status \<open>Completed\<close>, exactly: the
  records are, in order, the rows of the file whose status cell is the string
  \<open>Completed\<close> (and whose fare is readable), and cleaning leaves the status cell as it
  was. A row with any other status, such as the cancelled booking with fare 999 of the
  sample file, is in no canonical dataset and so enters no aggregate.
\<close>

theorem canonical_status_completed:
  assumes "load_data cv (Inr df) = (d, None)"
  shows "\<exists>i j f. index_of ''Booking Status'' (columns d) = Some i \<and>
           index_of ''fare'' (columns d) = Some j \<and>
           (\<forall>r\<in>set (rows d). cell_at i r = Str ''Completed'') \<and>
           rows d = map f (filter (kept cv i j) (rows df)) \<and>
           (\<forall>r. cell_at i (f r) = cell_at i r)"
proof -
  from assms have "load_data_try cv (Inr df) = Inr d"
    by (simp add: load_data_None)
  then obtain istatus ifare f where
    h: "index_of ''Booking Status'' (columns d) = Some istatus"
    "index_of ''fare'' (columns d) = Some ifare"
    "rows d = map f (filter (kept cv istatus ifare) (rows df))"
    "\<And>r. cell_at istatus (f r) = cell_at istatus r"
    by (elim load_data_try_rows) blast
  have "\<forall>r\<in>set (rows d). cell_at istatus r = Str ''Completed''"
    by (auto simp: h(3,4) kept_def)
  with h show ?thesis by blast
qed

theorem canonical_status_completed_witness:
  "load_data sample_conv (Inr sample_csv) = (sample_canonical, None) \<and>
   index_of ''Booking Status'' (columns sample_canonical) = Some 2 \<and>
   list_all (\<lambda>r. cell_at 2 r = Str ''Completed'') (rows sample_canonical) \<and>
   cell_at 2 (sample_rows ! 3) = Str ''Cancelled'' \<and>
   cell_at 8 (sample_rows ! 3) = Str ''999'' \<and>
   length (rows sample_canonical) = 4 \<and>
   total_booking_value sample_canonical = Inr 215"
proof -
  have 1: "index_of ''Booking Status'' (columns sample_canonical) = Some 2"
    by code_simp
  from canonical_status_completed[OF load_data_sample] obtain i where
    "index_of ''Booking Status'' (columns sample_canonical) = Some i"
    "\<forall>r\<in>set (rows sample_canonical). cell_at i r = Str ''Completed''"
    by blast
  with 1 have 2: "list_all (\<lambda>r. cell_at 2 r = Str ''Completed'') (rows sample_canonical)"
    by (simp add: list_all_iff)
  have 3: "cell_at 2 (sample_rows ! 3) = Str ''Cancelled'' \<and>
           cell_at 8 (sample_rows ! 3) = Str ''999'' \<and>
           length (rows sample_canonical) = 4 \<and>
           total_booking_value sample_canonical = Inr 215"
    by code_simp
  from 1 2 3 load_data_sample show ?thesis by simp
qed

text \<open>
  C4. Every record of the canonical dataset has a fare that is a number, never null: the
  records are the completed rows of the file whose fare \<open>to_numeric\<close> can read, and a
  completed row whose fare it cannot read (the text \<open>none\<close> in the sample file; \<open>N/A\<close>
  already arrives from \<open>read_csv\<close> as the missing value) is dropped.
\<close>

theorem canonical_fare_numeric:
  assumes "load_data cv (Inr df) = (d, None)"
  shows "\<exists>i j f. index_of ''Booking Status'' (columns d) = Some i \<and>
           index_of ''fare'' (columns d) = Some j \<and>
           (\<forall>r\<in>set (rows d). \<exists>x. cell_at j r = Num x) \<and>
           rows d = map f (filter (\<lambda>r. cell_at i r = Str ''Completed'' \<and>
                                       to_numeric_cell cv (cell_at j r) \<noteq> Null) (rows df)) \<and>
           (\<forall>r. cell_at j (f r) = to_numeric_cell cv (cell_at j r))"
proof -
  from assms have "load_data_try cv (Inr df) = Inr d"
    by (simp add: load_data_None)
  then obtain istatus ifare f where
    h: "index_of ''Booking Status'' (columns d) = Some istatus"
    "index_of ''fare'' (columns d) = Some ifare"
    "rows d = map f (filter (kept cv istatus ifare) (rows df))"
    "\<And>r. cell_at ifare (f r) = to_numeric_cell cv (cell_at ifare r)"
    by (elim load_data_try_rows) blast
  have "\<exists>x. cell_at ifare r = Num x" if "r \<in> set (rows d)" for r
  proof -
    from that obtain r0 where "r = f r0" "kept cv istatus ifare r0"
      by (auto simp: h(3))
    then show ?thesis
      using to_numeric_cell_cases[of cv "cell_at ifare r0"] by (auto simp: h(4) kept_def)
  qed
  with h show ?thesis
    unfolding kept_def[abs_def] by blast
qed

theorem canonical_fare_numeric_witness:
  "load_data sample_conv (Inr sample_csv) = (sample_canonical, None) \<and>
   index_of ''fare'' (columns sample_canonical) = Some 8 \<and>
   list_all (\<lambda>r. \<exists>x. cell_at 8 r = Num x) (rows sample_canonical) \<and>
   cell_at 2 (sample_rows ! 4) = Str ''Completed'' \<and>
   cell_at 8 (sample_rows ! 4) = Str ''none'' \<and>
   to_numeric_cell sample_conv (Str ''none'') = Null \<and>
   map (cell_at 1) (rows sample_canonical) = [Str ''T1'', Str ''T2'', Str ''T3'', Str ''T6'']"
proof -
  have 1: "index_of ''fare'' (columns sample_canonical) = Some 8"
    by code_simp
  from canonical_fare_numeric[OF load_data_sample] obtain j where
    "index_of ''fare'' (columns sample_canonical) = Some j"
    "\<forall>r\<in>set (rows sample_canonical). \<exists>x. cell_at j r = Num x"
    by blast
  with 1 have 2: "list_all (\<lambda>r. \<exists>x. cell_at 8 r = Num x) (rows sample_canonical)"
    by (simp add: list_all_iff)
  have 3: "cell_at 2 (sample_rows ! 4) = Str ''Completed'' \<and>
           cell_at 8 (sample_rows ! 4) = Str ''none'' \<and>
           to_numeric_cell sample_conv (Str ''none'') = Null \<and>
           map (cell_at 1) (rows sample_canonical) = [Str ''T1'', Str ''T2'', Str ''T3'', Str ''T6'']"
    by code_simp
  from 1 2 3 load_data_sample show ?thesis by simp
qed

section \<open>Filtering\<close>

lemma isin_map: "isin s f = map (in_selection f) s"
  by (simp add: isin_def in_selection_def[abs_def])

lemma dt_date_eq:
  "dt_date s = (if list_all datetimelike s then Inr (map day_of s) else Inl AttributeError)"
  by (simp add: dt_date_def datetimelike_def[abs_def] day_of_def[abs_def])

lemma mask_and_map: "mask_and (map A xs) (map B xs) = map (\<lambda>x. A x \<and> B x) xs"
  by (induction xs) (simp_all add: mask_and_def)

lemma date_mask:
  "mask_and (ge_date (map day_of s) lo) (le_date (map day_of s) hi) = map (in_range lo hi) s"
proof -
  have "mask_and (ge_date (map day_of s) lo) (le_date (map day_of s) hi) =
        mask_and (map (\<lambda>c. case day_of c of None \<Rightarrow> False | Some y \<Rightarrow> lo \<le> y) s)
                 (map (\<lambda>c. case day_of c of None \<Rightarrow> False | Some y \<Rightarrow> y \<le> hi) s)"
    by (simp add: ge_date_def le_date_def comp_def)
  also have "\<dots> = map (in_range lo hi) s"
    unfolding mask_and_map by (rule map_cong) (auto simp: in_range_def split: option.splits)
  finally show ?thesis .
qed

lemma select_rows_all:
  assumes "\<forall>r\<in>set (rows df). P (cell_at i r)"
  shows "select_rows df (map P (map (cell_at i) (rows df))) = df"
proof -
  have "rows (select_rows df (map P (map (cell_at i) (rows df)))) =
        filter (\<lambda>r. P (cell_at i r)) (rows df)"
    by (rule rows_select_rows)
  also have "\<dots> = rows df"
    using assms by simp
  finally show ?thesis
    by (simp add: select_rows_def)
qed

text \<open>One selection block.\<close>

lemma filter_isin_cases:
  assumes "filter_isin df c f = Inr d"
  obtains (skip) "f = [] \<or> ''All'' \<in> set f" "d = df"
  | (sel) i where "f \<noteq> []" "''All'' \<notin> set f" "index_of c (columns df) = Some i"
      "columns d = columns df"
      "rows d = filter (\<lambda>r. in_selection f (cell_at i r)) (rows df)"
proof (cases "f \<noteq> [] \<and> ''All'' \<notin> set f")
  case False
  with assms have "d = df" by (auto simp: filter_isin_def)
  with False skip show ?thesis by blast
next
  case True
  with assms obtain s where s: "getitem df c = Inr s" and d: "d = select_rows df (isin s f)"
    by (auto simp: filter_isin_def then_do_Inr)
  from s obtain i where i: "index_of c (columns df) = Some i" "s = map (cell_at i) (rows df)"
    by (rule getitem_rows)
  have "rows d = filter (\<lambda>r. in_selection f (cell_at i r)) (rows df)"
    unfolding d i(2) isin_map by (rule rows_select_rows)
  moreover have "columns d = columns df"
    by (simp add: d columns_select_rows)
  ultimately show ?thesis using sel True i(1) by blast
qed

lemma filter_isin_sub:
  assumes "filter_isin df c f = Inr d"
  shows "columns d = columns df \<and> set (rows d) \<subseteq> set (rows df)"
  using assms by (cases rule: filter_isin_cases) auto

lemma filter_isin_absorb:
  assumes "filter_isin df c f = Inr d" and "columns d' = columns df"
    and "set (rows d') \<subseteq> set (rows d)"
  shows "filter_isin d' c f = Inr d'"
  using assms(1)
proof (cases rule: filter_isin_cases)
  case skip
  then show ?thesis by (auto simp: filter_isin_def)
next
  case (sel i)
  have g: "getitem d' c = Inr (map (cell_at i) (rows d'))"
    using sel(3) assms(2) by (simp add: getitem_def)
  have "\<forall>r\<in>set (rows d'). in_selection f (cell_at i r)"
    using assms(3) sel(5) by auto
  then have all: "select_rows d' (map (in_selection f) (map (cell_at i) (rows d'))) = d'"
    by (rule select_rows_all)
  have "filter_isin d' c f = Inr (select_rows d' (map (in_selection f) (map (cell_at i) (rows d'))))"
    using g sel(1,2) by (simp add: filter_isin_def then_do_def isin_map del: map_map)
  also have "\<dots> = Inr d'"
    unfolding all ..
  finally show ?thesis .
qed

text \<open>The date block.\<close>

lemma filter_date_range_cases:
  assumes "filter_date_range df dr = Inr d"
  obtains (skip) "dr = []" "d = df"
  | (range) lo hi i where "dr = [lo, hi]" "index_of ''date'' (columns df) = Some i"
      "\<forall>r\<in>set (rows df). datetimelike (cell_at i r)"
      "columns d = columns df"
      "rows d = filter (\<lambda>r. in_range lo hi (cell_at i r)) (rows df)"
proof (cases "dr = []")
  case True
  with assms have "d = df" by (simp add: filter_date_range_def)
  with True skip show ?thesis by blast
next
  case False
  with assms obtain lo hi where dr: "dr = [lo, hi]"
    by (auto simp: filter_date_range_def split: list.splits)
  with assms obtain s where s: "getitem df ''date'' = Inr s"
    and ok: "list_all datetimelike s"
    and d: "d = select_rows df (mask_and (ge_date (map day_of s) lo) (le_date (map day_of s) hi))"
    by (auto simp: filter_date_range_def then_do_Inr dt_date_eq split: if_splits)
  from s obtain i where i: "index_of ''date'' (columns df) = Some i" "s = map (cell_at i) (rows df)"
    by (rule getitem_rows)
  have "rows d = filter (\<lambda>r. in_range lo hi (cell_at i r)) (rows df)"
    unfolding d date_mask i(2) by (rule rows_select_rows)
  moreover have "columns d = columns df"
    by (simp add: d columns_select_rows)
  moreover have "\<forall>r\<in>set (rows df). datetimelike (cell_at i r)"
    using ok by (simp add: i(2) list_all_iff)
  ultimately show ?thesis using range dr i(1) by blast
qed

lemma filter_date_range_sub:
  assumes "filter_date_range df dr = Inr d"
  shows "columns d = columns df \<and> set (rows d) \<subseteq> set (rows df)"
  using assms by (cases rule: filter_date_range_cases) auto

lemma filter_date_range_absorb:
  assumes "filter_date_range df dr = Inr d" and "columns d' = columns df"
    and "set (rows d') \<subseteq> set (rows d)"
  shows "filter_date_range d' dr = Inr d'"
  using assms(1)
proof (cases rule: filter_date_range_cases)
  case skip
  then show ?thesis by (simp add: filter_date_range_def)
next
  case (range lo hi i)
  let ?s = "map (cell_at i) (rows d')"
  have g: "getitem d' ''date'' = Inr ?s"
    using range(2) assms(2) by (simp add: getitem_def)
  have sub: "set (rows d') \<subseteq> set (rows df)"
    using assms(3) range(5) by auto
  have ok: "list_all datetimelike ?s"
    using sub range(3) by (auto simp: list_all_iff)
  have "\<forall>r\<in>set (rows d'). in_range lo hi (cell_at i r)"
    using assms(3) range(5) by auto
  then have sel: "select_rows d' (map (in_range lo hi) ?s) = d'"
    by (rule select_rows_all)
  have "filter_date_range d' dr =
        Inr (select_rows d' (mask_and (ge_date (map day_of ?s) lo) (le_date (map day_of ?s) hi)))"
    using g ok range(1) by (simp add: filter_date_range_def then_do_def dt_date_eq del: map_map)
  also have "\<dots> = Inr d'"
    unfolding date_mask sel ..
  finally show ?thesis .
qed

lemma apply_filters_stages:
  assumes "apply_filters df dr pf dof vf = Inr d"
  obtains d1 d2 d3 where "filter_date_range df dr = Inr d1"
    "filter_isin d1 ''pickup'' pf = Inr d2"
    "filter_isin d2 ''dropoff'' dof = Inr d3"
    "filter_isin d3 ''vehicle_type'' vf = Inr d"
  using assms unfolding apply_filters_def Let_def
  by (elim then_doE) auto

lemma apply_filters_again:
  assumes "apply_filters df dr pf dof vf = Inr d"
  shows "apply_filters d dr pf dof vf = Inr d"
proof -
  from assms obtain d1 d2 d3 where
    s1: "filter_date_range df dr = Inr d1" and
    s2: "filter_isin d1 ''pickup'' pf = Inr d2" and
    s3: "filter_isin d2 ''dropoff'' dof = Inr d3" and
    s4: "filter_isin d3 ''vehicle_type'' vf = Inr d"
    by (rule apply_filters_stages)
  note sub = filter_date_range_sub[OF s1] filter_isin_sub[OF s2] filter_isin_sub[OF s3]
    filter_isin_sub[OF s4]
  have c: "columns d = columns df" "columns d = columns d1" "columns d = columns d2"
    "columns d = columns d3"
    using sub by simp_all
  have r: "set (rows d) \<subseteq> set (rows d1)" "set (rows d) \<subseteq> set (rows d2)"
    "set (rows d) \<subseteq> set (rows d3)" "set (rows d) \<subseteq> set (rows d)"
    using sub by auto
  have "filter_date_range d dr = Inr d"
    using s1 c(1) r(1) by (rule filter_date_range_absorb)
  moreover have "filter_isin d ''pickup'' pf = Inr d"
    using s2 c(2) r(2) by (rule filter_isin_absorb)
  moreover have "filter_isin d ''dropoff'' dof = Inr d"
    using s3 c(3) r(3) by (rule filter_isin_absorb)
  moreover have "filter_isin d ''vehicle_type'' vf = Inr d"
    using s4 c(4) r(4) by (rule filter_isin_absorb)
  ultimately show ?thesis
    by (simp add: apply_filters_def then_do_def)
qed


section \<open>Grouped sums\<close>

















section \<open>The canonical frame has no missing category\<close>

text \<open>
  After \<open>fillna('Unknown')\<close> the columns \<open>pickup\<close>, \<open>dropoff\<close>, \<open>payment_type\<close> and
  \<open>vehicle_type\<close> of the canonical frame hold no missing value, and a filtered frame
  inherits this: its rows are rows of the frame it was filtered from.
\<close>

lemma unknown_not_Null [simp]: "unknown c \<noteq> Null"
  by (simp add: unknown_def)





section \<open>Filtering: what apply_filters guarantees\<close>

text \<open>
  C5. With no date range and the selection \<open>['All']\<close> for pickup, dropoff and vehicle
  type, \<open>apply_filters\<close> returns the frame it was given, so in particular the same
  multiset of records. The same holds when the three selections are absent (empty).
\<close>

theorem select_all_identity:
  "apply_filters df [] [''All''] [''All''] [''All''] = Inr df \<and>
   apply_filters df [] [] [] [] = Inr df \<and>
   (case apply_filters df [] [''All''] [''All''] [''All''] of
      Inl e \<Rightarrow> False
    | Inr d \<Rightarrow> mset (rows d) = mset (rows df))"
  by (simp add: apply_filters_def filter_date_range_def filter_isin_def then_do_def)

theorem select_all_identity_witness:
  "apply_filters sample_canonical [] [''All''] [''All''] [''All''] = Inr sample_canonical \<and>
   length (rows sample_canonical) = 4"
proof -
  have "length (rows sample_canonical) = 4"
    by (simp add: sample_canonical_def)
  with select_all_identity[of sample_canonical] show ?thesis
    by blast
qed

text \<open>
  C9. Filtering is idempotent: filtering the result of \<open>apply_filters\<close> again with the
  same criteria returns that result unchanged. When the first call raises there is no
  result to filter, and the sequence of the two calls raises the same exception.
\<close>

theorem apply_filters_idempotent:
  "then_do (apply_filters df dr pf dof vf) (\<lambda>d. apply_filters d dr pf dof vf) =
   apply_filters df dr pf dof vf"
proof (cases "apply_filters df dr pf dof vf")
  case (Inl e)
  then show ?thesis by (simp add: then_do_def)
next
  case (Inr d)
  then show ?thesis by (simp add: then_do_def apply_filters_again)
qed

theorem apply_filters_idempotent_witness:
  "apply_filters sample_canonical [(2024, 1, 1), (2024, 1, 2)] [''A'', ''B''] [] [''Auto''] =
     Inr (sample_canonical\<lparr>rows := [rows sample_canonical ! 0, rows sample_canonical ! 2]\<rparr>) \<and>
   apply_filters
     (sample_canonical\<lparr>rows := [rows sample_canonical ! 0, rows sample_canonical ! 2]\<rparr>)
     [(2024, 1, 1), (2024, 1, 2)] [''A'', ''B''] [] [''Auto''] =
     Inr (sample_canonical\<lparr>rows := [rows sample_canonical ! 0, rows sample_canonical ! 2]\<rparr>)"
proof -
  have 1: "apply_filters sample_canonical [(2024, 1, 1), (2024, 1, 2)] [''A'', ''B''] [] [''Auto''] =
     Inr (sample_canonical\<lparr>rows := [rows sample_canonical ! 0, rows sample_canonical ! 2]\<rparr>)"
    by code_simp
  from apply_filters_idempotent[of sample_canonical "[(2024, 1, 1), (2024, 1, 2)]"
      "[''A'', ''B'']" "[]" "[''Auto'']"]
  show ?thesis
    unfolding 1 by (simp only: then_do_def sum.case simp_thms)
qed

text \<open>
  C10. A selection that is empty, or that holds \<open>All\<close> among other values, puts no
  restriction on its field: \<open>apply_filters\<close> then does what it would do with the block of
  that field removed. An empty selection is "select all", not "select nothing".
\<close>

theorem empty_or_all_selection_unrestricted:
  "(select_all pf \<longrightarrow>
      apply_filters df dr pf dof vf =
      then_do (filter_date_range df dr) (\<lambda>d.
      then_do (filter_isin d ''dropoff'' dof) (\<lambda>d. filter_isin d ''vehicle_type'' vf))) \<and>
   (select_all dof \<longrightarrow>
      apply_filters df dr pf dof vf =
      then_do (filter_date_range df dr) (\<lambda>d.
      then_do (filter_isin d ''pickup'' pf) (\<lambda>d. filter_isin d ''vehicle_type'' vf))) \<and>
   (select_all vf \<longrightarrow>
      apply_filters df dr pf dof vf =
      then_do (filter_date_range df dr) (\<lambda>d.
      then_do (filter_isin d ''pickup'' pf) (\<lambda>d. filter_isin d ''dropoff'' dof))) \<and>
   (select_all pf \<and> select_all dof \<and> select_all vf \<longrightarrow>
      apply_filters df dr pf dof vf = filter_date_range df dr)"
proof -
  have bind_Inr: "then_do m Inr = m" for m :: "error + frame"
    by (cases m) (simp_all add: then_do_def)
  have skip: "select_all f \<Longrightarrow> filter_isin d c f = Inr d" for f d c
    by (auto simp: filter_isin_def select_all_def)
  have unit: "then_do (Inr d) k = k d" for d :: frame and k :: "frame \<Rightarrow> error + frame"
    by (simp add: then_do_def)
  show ?thesis
    by (auto simp: apply_filters_def skip unit bind_Inr)
qed

theorem empty_or_all_selection_unrestricted_witness:
  "select_all [] \<and> select_all [''X'', ''All''] \<and>
   apply_filters sample_canonical [] [] [''X'', ''All''] [''Auto''] =
     Inr (sample_canonical\<lparr>rows := [rows sample_canonical ! 0, rows sample_canonical ! 2]\<rparr>)"
proof -
  have a: "select_all []" "select_all [''X'', ''All'']"
    by (simp_all add: select_all_def)
  have b: "then_do (filter_date_range sample_canonical []) (\<lambda>d.
           then_do (filter_isin d ''dropoff'' [''X'', ''All'']) (\<lambda>d.
           filter_isin d ''vehicle_type'' [''Auto''])) =
     Inr (sample_canonical\<lparr>rows := [rows sample_canonical ! 0, rows sample_canonical ! 2]\<rparr>)"
    by code_simp
  from empty_or_all_selection_unrestricted[of "[]" sample_canonical "[]" "[''X'', ''All'']"
      "[''Auto'']"] a(1)
  have "apply_filters sample_canonical [] [] [''X'', ''All''] [''Auto''] =
        then_do (filter_date_range sample_canonical []) (\<lambda>d.
        then_do (filter_isin d ''dropoff'' [''X'', ''All'']) (\<lambda>d.
        filter_isin d ''vehicle_type'' [''Auto'']))"
    by blast
  with a b show ?thesis
    by (simp only: simp_thms)
qed

section \<open>Charts: what the grouped sums guarantee\<close>








end
